theory Spec2Isabelle
  imports Main
begin

section \<open>Python library functions used by \<^verbatim>\<open>create_template.py\<close>\<close>

subsection \<open>\<^verbatim>\<open>str\<close> of an integer\<close>

text \<open>
  Python integers are unbounded, so they are \<^typ>\<open>int\<close>. \<^verbatim>\<open>str(n)\<close> and the
  f-string field \<^verbatim>\<open>{n}\<close> both give the decimal digits of \<open>n\<close>, with a leading
  minus sign for a negative number.
\<close>

definition digit_char :: "nat \<Rightarrow> char" where
  "digit_char d = ''0123456789'' ! d"

fun str_nat :: "nat \<Rightarrow> string" where
  "str_nat n =
     (if n < 10 then [digit_char n] else str_nat (n div 10) @ [digit_char (n mod 10)])"

declare str_nat.simps [simp del]

definition str :: "int \<Rightarrow> string" where
  "str i = (if i < 0 then CHR ''-'' # str_nat (nat (- i)) else str_nat (nat i))"

subsection \<open>\<^verbatim>\<open>os.path\<close> on a POSIX system\<close>

definition os_path_isabs :: "string \<Rightarrow> bool" where
  "os_path_isabs p = (case p of [] \<Rightarrow> False | c # _ \<Rightarrow> c = CHR ''/'')"

definition os_path_join :: "string \<Rightarrow> string \<Rightarrow> string" where
  "os_path_join a b =
     (if os_path_isabs b then b
      else if a = [] \<or> last a = CHR ''/'' then a @ b
      else a @ ''/'' @ b)"

definition os_path_basename :: "string \<Rightarrow> string" where
  "os_path_basename p = rev (takeWhile (\<lambda>c. c \<noteq> CHR ''/'') (rev p))"

subsection \<open>Exceptions, external commands, logging and the progress bar\<close>

text \<open>
  The exception classes the script can meet. \<open>SystemExit\<close> is raised by
  \<^verbatim>\<open>sys.exit\<close>; it derives from \<^verbatim>\<open>BaseException\<close> only, so an
  \<^verbatim>\<open>except Exception\<close> clause does not catch it. \<open>PermissionError\<close> stands for the
  \<^verbatim>\<open>OSError\<close> subclasses other than \<^verbatim>\<open>FileNotFoundError\<close> that
  \<^verbatim>\<open>subprocess\<close> raises when the program exists but cannot be started.
\<close>

datatype exn =
    CalledProcessError int "string list"
  | FileNotFoundError string
  | PermissionError string
  | OtherException string
  | SystemExit "int option"

text \<open>
  How one call \<^verbatim>\<open>subprocess.check_call(cmd)\<close> can end: the child ran and exited with
  a status, the executable was not found, the executable could not be started, or
  anything else went wrong. The environment decides; it is a parameter
  \<open>run :: 'w \<Rightarrow> string list \<Rightarrow> outcome \<times> 'w\<close> over an arbitrary type \<open>'w\<close> of
  states of the hypervisor host. Asynchronous interrupts are outside this model.
\<close>

datatype outcome =
    Exited int
  | NotFound string
  | NotPermitted string
  | Failed string

datatype level = INFO | ERROR

datatype arg = ArgInt int | ArgExn exn

text \<open>
  What the script does that can be observed, in order: a log record (level, message
  and the arguments for its \<^verbatim>\<open>%s\<close> fields, as \<^verbatim>\<open>logging\<close> keeps them) or
  the invocation of an external command.
\<close>

datatype event =
    Logged level string "arg list"
  | Invoked "string list"

record 'w state =
  world :: 'w
  trace :: "event list"
  pbar_n :: nat
  pbar_total :: nat

definition logging_info :: "string \<Rightarrow> arg list \<Rightarrow> 'w state \<Rightarrow> 'w state" where
  "logging_info msg as s = s\<lparr>trace := trace s @ [Logged INFO msg as]\<rparr>"

definition logging_error :: "string \<Rightarrow> arg list \<Rightarrow> 'w state \<Rightarrow> 'w state" where
  "logging_error msg as s = s\<lparr>trace := trace s @ [Logged ERROR msg as]\<rparr>"

definition tqdm :: "nat \<Rightarrow> 'w state \<Rightarrow> 'w state" where
  "tqdm tot s = s\<lparr>pbar_n := 0, pbar_total := tot\<rparr>"

definition pbar_update :: "nat \<Rightarrow> 'w state \<Rightarrow> 'w state" where
  "pbar_update k s = s\<lparr>pbar_n := pbar_n s + k\<rparr>"

text \<open>
  The exception \<^verbatim>\<open>subprocess.check_call(cmd)\<close> raises for an outcome, if any:
  \<^verbatim>\<open>CalledProcessError\<close> for a status other than 0, and the error of the failed
  start otherwise.
\<close>

definition raised :: "outcome \<Rightarrow> string list \<Rightarrow> exn option" where
  "raised out cmd =
     (case out of
        Exited rc \<Rightarrow> if rc = 0 then None else Some (CalledProcessError rc cmd)
      | NotFound m \<Rightarrow> Some (FileNotFoundError m)
      | NotPermitted m \<Rightarrow> Some (PermissionError m)
      | Failed m \<Rightarrow> Some (OtherException m))"

definition check_call ::
  "('w \<Rightarrow> string list \<Rightarrow> outcome \<times> 'w) \<Rightarrow> string list \<Rightarrow> 'w state \<Rightarrow> exn option \<times> 'w state" where
  "check_call run cmd s =
     (case run (world s) cmd of
        (out, w') \<Rightarrow> (raised out cmd, s\<lparr>world := w', trace := trace s @ [Invoked cmd]\<rparr>))"

definition sys_exit :: "int option \<Rightarrow> 'w state \<Rightarrow> exn option \<times> 'w state" where
  "sys_exit code s = (Some (SystemExit code), s)"

text \<open>
  The exit status of the process, from how \<^verbatim>\<open>main\<close> ended: \<^verbatim>\<open>sys.exit()\<close>
  without an argument is status 0, \<^verbatim>\<open>sys.exit(n)\<close> is the low byte of \<open>n\<close>, any
  other exception that nobody catches is status 1, and a normal return is status 0.
\<close>

fun exit_status :: "exn option \<Rightarrow> int" where
  "exit_status None = 0"
| "exit_status (Some (SystemExit None)) = 0"
| "exit_status (Some (SystemExit (Some n))) = n mod 256"
| "exit_status (Some e) = 1"

section \<open>\<^verbatim>\<open>create_template\<close>\<close>

type_synonym step = "string \<times> string list"

text \<open>The table \<^verbatim>\<open>steps\<close> (lines 38 to 60).\<close>

definition steps ::
  "int \<Rightarrow> string \<Rightarrow> int \<Rightarrow> int \<Rightarrow> int \<Rightarrow> string \<Rightarrow> string \<Rightarrow> string \<Rightarrow> step list" where
  "steps vm_id vm_name vm_vlan mem cores cinit iso_file ostype =
     [(''Creating VM'',
        [''qm'', ''create'', str vm_id, ''--name'', vm_name, ''--ostype'', ostype,
         ''--tablet'', ''0'']),
      (''Configuring Network'',
        [''qm'', ''set'', str vm_id, ''--net0'',
         ''virtio,bridge=vmbr0'' @ (if vm_vlan \<noteq> 0 then '',tag='' @ str vm_vlan else ''''),
         ''--memory'', str mem, ''--cores'', str cores, ''--cpu'', ''host'']),
      (''Setting ISO'',
        [''qm'', ''set'', str vm_id, ''--scsi0'',
         ''local-lvm:0,import-from='' @ iso_file @ '',discard=on,ssd=1'']),
      (''Configuring Boot'',
        [''qm'', ''set'', str vm_id, ''--boot'', ''order=scsi0'', ''--scsihw'',
         ''virtio-scsi-single'', ''--agent'', ''enabled=1,fstrim_cloned_disks=1'']),
      (''Configuring Cloud-Init'',
        [''qm'', ''set'', str vm_id, ''--ide2'', ''local-lvm:cloudinit'', ''--ipconfig0'',
         ''ip=dhcp'']),
      (''Setting Cloud-Init Customization'',
        (if cinit \<noteq> []
         then [''qm'', ''set'', str vm_id, ''--cicustom'', ''user=local:snippets/'' @ cinit]
         else [])),
      (''Creating Template'', [''qm'', ''template'', str vm_id])]"

text \<open>The \<^verbatim>\<open>for\<close> loop (lines 64 to 68). An exception ends it where it is raised.\<close>

fun run_steps ::
  "('w \<Rightarrow> string list \<Rightarrow> outcome \<times> 'w) \<Rightarrow> int \<Rightarrow> step list \<Rightarrow> 'w state \<Rightarrow> exn option \<times> 'w state" where
  "run_steps run vm_id [] s = (None, s)"
| "run_steps run vm_id ((desc, cmd) # rest) s =
     (if cmd \<noteq> [] then
        (case check_call run cmd (logging_info (desc @ '' for VM ID '' @ str vm_id) [] s) of
           (Some e, s1) \<Rightarrow> (Some e, s1)
         | (None, s1) \<Rightarrow> run_steps run vm_id rest (pbar_update 1 s1))
      else run_steps run vm_id rest (pbar_update 1 s))"

text \<open>
  The \<^verbatim>\<open>except\<close> clauses (lines 71 to 76), tried in the order they are written.
  The last one, \<^verbatim>\<open>except Exception\<close>, lets \<open>SystemExit\<close> through.
\<close>

fun except_clauses :: "exn \<Rightarrow> 'w state \<Rightarrow> exn option \<times> 'w state" where
  "except_clauses (CalledProcessError rc cmd) s =
     (None, logging_error ''An error occurred while creating the template: %s''
              [ArgExn (CalledProcessError rc cmd)] s)"
| "except_clauses (FileNotFoundError m) s =
     (None, logging_error ''File not found error: %s'' [ArgExn (FileNotFoundError m)] s)"
| "except_clauses (SystemExit code) s = (Some (SystemExit code), s)"
| "except_clauses e s =
     (None, logging_error ''An unexpected error occurred: %s'' [ArgExn e] s)"

text \<open>The \<^verbatim>\<open>try\<close> statement (lines 62 to 76) over a table of steps.\<close>

definition try_steps ::
  "('w \<Rightarrow> string list \<Rightarrow> outcome \<times> 'w) \<Rightarrow> int \<Rightarrow> step list \<Rightarrow> 'w state \<Rightarrow> exn option \<times> 'w state" where
  "try_steps run vm_id stps s =
     (case run_steps run vm_id stps (tqdm (length stps) s) of
        (None, s1) \<Rightarrow>
          (None, logging_info ''Template creation for VM ID %s completed successfully''
                   [ArgInt vm_id] s1)
      | (Some e, s1) \<Rightarrow> except_clauses e s1)"

definition create_template ::
  "('w \<Rightarrow> string list \<Rightarrow> outcome \<times> 'w) \<Rightarrow>
   int \<Rightarrow> string \<Rightarrow> int \<Rightarrow> int \<Rightarrow> int \<Rightarrow> string \<Rightarrow> string \<Rightarrow> string \<Rightarrow>
   'w state \<Rightarrow> exn option \<times> 'w state" where
  "create_template run vm_id vm_name vm_vlan mem cores cinit iso_file ostype s =
     try_steps run vm_id (steps vm_id vm_name vm_vlan mem cores cinit iso_file ostype) s"

section \<open>\<^verbatim>\<open>main\<close>\<close>

text \<open>The namespace \<^verbatim>\<open>args\<close> that \<^verbatim>\<open>parser.parse_args()\<close> returns.\<close>

record args =
  args_vmid :: int
  args_name :: string
  args_vlan :: int
  args_memory :: int
  args_cores :: int
  args_cinit :: string
  args_iso :: string
  args_ostype :: string

definition iso_dir :: string where
  "iso_dir = ''/var/lib/vz/template/iso''"

definition snippets_dir :: string where
  "snippets_dir = ''/var/lib/vz/snippets''"

text \<open>
  Lines 117 to 132: the ISO path is made absolute and looked for, first where it is
  and then in \<open>iso_dir\<close>. \<open>getcwd\<close> is the working directory and \<open>path_exists\<close> the
  file system's answer to \<^verbatim>\<open>os.path.exists\<close>. The result is the path to use, or
  the exception raised.
\<close>

definition resolve_iso ::
  "string \<Rightarrow> (string \<Rightarrow> bool) \<Rightarrow> string \<Rightarrow> 'w state \<Rightarrow> (exn + string) \<times> 'w state" where
  "resolve_iso getcwd path_exists iso_arg s =
     (let (iso1, s1) =
        (if \<not> os_path_isabs iso_arg
         then (os_path_join getcwd iso_arg,
               logging_info (''Converted ISO path to absolute path: '' @ os_path_join getcwd iso_arg) [] s)
         else (iso_arg, s))
      in if \<not> path_exists iso1 then
           (let s2 = logging_info (''ISO file not found in current directory, checking '' @ iso_dir) [] s1;
                iso_file_in_dir = os_path_join iso_dir (os_path_basename iso1)
            in if path_exists iso_file_in_dir then
                 (Inr iso_file_in_dir,
                  logging_info (''ISO file found in '' @ iso_dir @ '', using path: '' @ iso_file_in_dir) [] s2)
               else
                 (Inl (SystemExit (Some 1)),
                  logging_error (''The ISO file must be located in the current directory or '' @
                                 [CHR 0x27] @ iso_dir @ [CHR 0x27]) [] s2))
         else (Inr iso1, s1))"

text \<open>Lines 134 to 142: the cloud-init snippet, when one is named, must exist.\<close>

definition check_cinit :: "(string \<Rightarrow> bool) \<Rightarrow> string \<Rightarrow> 'w state \<Rightarrow> exn option \<times> 'w state" where
  "check_cinit path_exists cinit s =
     (if cinit \<noteq> [] \<and> \<not> path_exists (os_path_join snippets_dir cinit) then
        sys_exit (Some 1)
          (logging_error (''The Cloud-Init file '' @ [CHR 0x27] @ cinit @ [CHR 0x27] @
                          '' does not exist in '' @ [CHR 0x27] @ snippets_dir @ [CHR 0x27]) [] s)
      else (None, s))"

definition main ::
  "('w \<Rightarrow> string list \<Rightarrow> outcome \<times> 'w) \<Rightarrow> string \<Rightarrow> (string \<Rightarrow> bool) \<Rightarrow> args \<Rightarrow>
   'w state \<Rightarrow> exn option \<times> 'w state" where
  "main run getcwd path_exists a s =
     (if CHR '' '' \<in> set (args_name a) then
        sys_exit None
          (logging_error ''VM name contains spaces. Please use a name without spaces.'' [] s)
      else
        (case resolve_iso getcwd path_exists (args_iso a) s of
           (Inl e, s1) \<Rightarrow> (Some e, s1)
         | (Inr iso_file, s1) \<Rightarrow>
             (case check_cinit path_exists (args_cinit a) s1 of
                (Some e, s2) \<Rightarrow> (Some e, s2)
              | (None, s2) \<Rightarrow>
                  create_template run (args_vmid a) (args_name a) (args_vlan a) (args_memory a)
                    (args_cores a) (args_cinit a) iso_file (args_ostype a) s2)))"

section \<open>Reading a trace\<close>

fun invocations :: "event list \<Rightarrow> string list list" where
  "invocations [] = []"
| "invocations (Invoked c # es) = c # invocations es"
| "invocations (Logged l m as # es) = invocations es"

fun errors_logged :: "event list \<Rightarrow> event list" where
  "errors_logged [] = []"
| "errors_logged (Logged ERROR m as # es) = Logged ERROR m as # errors_logged es"
| "errors_logged (e # es) = errors_logged es"

text \<open>
  What one step of the loop adds to the trace when it is reached: for a command that
  is not empty, the line announcing the step and then the invocation; for an empty
  command, nothing.
\<close>

definition step_events :: "int \<Rightarrow> step \<Rightarrow> event list" where
  "step_events vm_id st =
     (if snd st = [] then []
      else [Logged INFO (fst st @ '' for VM ID '' @ str vm_id) [], Invoked (snd st)])"

section \<open>Sample environments\<close>

text \<open>
  Hosts whose state counts the commands run so far. On \<open>always_succeeds\<close> every
  command exits with status 0; on \<open>fail_nth k out\<close> the command number \<open>k\<close>
  (counting from 0) ends with \<open>out\<close> and every other one exits with status 0.
\<close>

definition init :: "nat state" where
  "init = \<lparr>world = 0, trace = [], pbar_n = 0, pbar_total = 0\<rparr>"

definition always_succeeds :: "nat \<Rightarrow> string list \<Rightarrow> outcome \<times> nat" where
  "always_succeeds w cmd = (Exited 0, Suc w)"

definition fail_nth :: "nat \<Rightarrow> outcome \<Rightarrow> nat \<Rightarrow> string list \<Rightarrow> outcome \<times> nat" where
  "fail_nth k out w cmd = (if w = k then out else Exited 0, Suc w)"

section \<open>Lemmas\<close>

lemma str_examples:
  "str 0 = ''0''" "str 2 = ''2''" "str 42 = ''42''" "str 2046 = ''2046''"
  "str 9001 = ''9001''" "str 9002 = ''9002''"
  by (simp_all add: str_def str_nat.simps digit_char_def)

lemma invocations_append: "invocations (xs @ ys) = invocations xs @ invocations ys"
  by (induction xs rule: invocations.induct) auto

lemma errors_logged_append: "errors_logged (xs @ ys) = errors_logged xs @ errors_logged ys"
  by (induction xs rule: errors_logged.induct) auto

lemma invocations_step_events:
  "invocations (concat (map (step_events vm_id) stps)) = filter (\<lambda>c. c \<noteq> []) (map snd stps)"
  by (induction stps) (auto simp: invocations_append step_events_def)

lemma raised_not_exit: "raised out cmd \<noteq> Some (SystemExit c)"
  by (cases out) (auto simp: raised_def)

lemma raised_abnormal:
  "out \<noteq> Exited 0 \<Longrightarrow> \<exists>e. raised out cmd = Some e"
  by (cases out) (auto simp: raised_def)

lemma except_clauses_logs:
  "(\<And>c. e \<noteq> SystemExit c) \<Longrightarrow> \<exists>m. except_clauses e s = (None, logging_error m [ArgExn e] s)"
  by (cases e) auto

subsection \<open>The loop and the \<^verbatim>\<open>try\<close> statement\<close>

text \<open>
  The loop over \<open>pre @ post\<close> is the loop over \<open>pre\<close> and, when that ends without an
  exception, the loop over \<open>post\<close>. No exception that leaves the loop is
  \<open>SystemExit\<close>. When the loop ends, the progress counter has grown by the number
  of steps completed, and the trace by the events of the steps reached (the failing
  step, if there is one, being the last of them).
\<close>

lemma run_steps_append:
  "run_steps run vm_id (pre @ post) s =
     (case run_steps run vm_id pre s of
        (None, s1) \<Rightarrow> run_steps run vm_id post s1
      | (Some e, s1) \<Rightarrow> (Some e, s1))"
  by (induction pre arbitrary: s) (auto split: prod.splits option.splits)

lemma run_steps_not_exit: "run_steps run vm_id stps s = (Some e, s') \<Longrightarrow> e \<noteq> SystemExit c"
proof (induction stps arbitrary: s)
  case Nil
  then show ?case by simp
next
  case (Cons st rest)
  then show ?case
    by (cases st) (auto simp: check_call_def raised_not_exit split: if_splits prod.splits option.splits)
qed

lemma run_steps_shape:
  "run_steps run vm_id stps s = (r, s') \<Longrightarrow>
     \<exists>k. k \<le> length stps \<and> pbar_n s' = pbar_n s + k \<and> pbar_total s' = pbar_total s \<and>
         (case r of None \<Rightarrow> k = length stps \<and>
                      trace s' = trace s @ concat (map (step_events vm_id) stps)
          | Some e \<Rightarrow> k < length stps \<and> snd (stps ! k) \<noteq> [] \<and>
                      trace s' = trace s @ concat (map (step_events vm_id) (take (Suc k) stps)))"
proof (induction stps arbitrary: s)
  case Nil
  then show ?case by simp
next
  case (Cons st rest)
  obtain desc cmd where st: "st = (desc, cmd)" by (cases st)
  show ?case
  proof (cases "cmd = []")
    case True
    with Cons.prems st have "run_steps run vm_id rest (pbar_update 1 s) = (r, s')" by simp
    from Cons.IH[OF this] obtain k where k: "k \<le> length rest" "pbar_n s' = pbar_n (pbar_update 1 s) + k"
      "pbar_total s' = pbar_total (pbar_update 1 s)"
      "(case r of None \<Rightarrow> k = length rest \<and>
                      trace s' = trace (pbar_update 1 s) @ concat (map (step_events vm_id) rest)
          | Some e \<Rightarrow> k < length rest \<and> snd (rest ! k) \<noteq> [] \<and>
                      trace s' = trace (pbar_update 1 s) @ concat (map (step_events vm_id) (take (Suc k) rest)))"
      by blast
    show ?thesis
      apply (rule exI[of _ "Suc k"])
      using k True st by (auto simp: pbar_update_def step_events_def split: option.splits)
  next
    case False
    obtain out w' where run: "run (world s) cmd = (out, w')" by (cases "run (world s) cmd")
    define s1 where "s1 = s\<lparr>world := w', trace := trace s @ [Logged INFO (desc @ '' for VM ID '' @ str vm_id) [], Invoked cmd]\<rparr>"
    have cc: "check_call run cmd (logging_info (desc @ '' for VM ID '' @ str vm_id) [] s) = (raised out cmd, s1)"
      using run by (simp add: check_call_def logging_info_def s1_def)
    show ?thesis
    proof (cases "raised out cmd")
      case None
      with Cons.prems st False cc have "run_steps run vm_id rest (pbar_update 1 s1) = (r, s')" by simp
      from Cons.IH[OF this] obtain k where k: "k \<le> length rest" "pbar_n s' = pbar_n (pbar_update 1 s1) + k"
      "pbar_total s' = pbar_total (pbar_update 1 s1)"
      "(case r of None \<Rightarrow> k = length rest \<and>
                      trace s' = trace (pbar_update 1 s1) @ concat (map (step_events vm_id) rest)
          | Some e \<Rightarrow> k < length rest \<and> snd (rest ! k) \<noteq> [] \<and>
                      trace s' = trace (pbar_update 1 s1) @ concat (map (step_events vm_id) (take (Suc k) rest)))"
      by blast
      show ?thesis
        apply (rule exI[of _ "Suc k"])
        using k False st by (auto simp: pbar_update_def step_events_def s1_def split: option.splits)
    next
      case (Some e)
      with Cons.prems st False cc have "r = Some e" "s' = s1" by simp_all
      then show ?thesis
        apply -
        apply (rule exI[of _ 0])
        using False st by (simp add: step_events_def s1_def)
    qed
  qed
qed

lemma try_steps_shape:
  assumes "try_steps run vm_id stps s = (r, s')"
  shows "r = None \<and> pbar_total s' = length stps \<and>
     (case fst (run_steps run vm_id stps (tqdm (length stps) s)) of
        None \<Rightarrow>
          pbar_n s' = length stps \<and>
          trace s' = trace s @ concat (map (step_events vm_id) stps) @
            [Logged INFO ''Template creation for VM ID %s completed successfully'' [ArgInt vm_id]]
      | Some e \<Rightarrow>
          pbar_n s' < length stps \<and> snd (stps ! pbar_n s') \<noteq> [] \<and>
          (\<exists>m. trace s' = trace s @ concat (map (step_events vm_id) (take (Suc (pbar_n s')) stps)) @
            [Logged ERROR m [ArgExn e]]))"
proof -
  obtain r1 s1 where loop: "run_steps run vm_id stps (tqdm (length stps) s) = (r1, s1)"
    by (cases "run_steps run vm_id stps (tqdm (length stps) s)")
  from run_steps_shape[OF loop] obtain k where k: "k \<le> length stps"
    "pbar_n s1 = k" "pbar_total s1 = length stps"
    "(case r1 of None \<Rightarrow> k = length stps \<and>
                      trace s1 = trace s @ concat (map (step_events vm_id) stps)
          | Some e \<Rightarrow> k < length stps \<and> snd (stps ! k) \<noteq> [] \<and>
                      trace s1 = trace s @ concat (map (step_events vm_id) (take (Suc k) stps)))"
    by (auto simp: tqdm_def split: option.splits)
  show ?thesis
  proof (cases r1)
    case None
    with assms loop k show ?thesis
      by (auto simp: try_steps_def logging_info_def)
  next
    case (Some e)
    with loop have "\<And>c. e \<noteq> SystemExit c" by (auto dest: run_steps_not_exit)
    from except_clauses_logs[OF this] obtain m where
      m: "except_clauses e s1 = (None, logging_error m [ArgExn e] s1)" by blast
    with assms loop k Some show ?thesis
      by (auto simp: try_steps_def logging_error_def)
  qed
qed

lemma less_7_cases:
  "k < 7 \<Longrightarrow> k = 0 \<or> k = 1 \<or> k = 2 \<or> k = 3 \<or> k = 4 \<or> k = 5 \<or> k = (6::nat)"
  by arith

section \<open>The claims\<close>

text \<open>
  Claim C1. For every table of steps and every step in it whose command is invoked and
  ends abnormally, the earlier steps having completed: the run stops there. The result
  is a normal return whose trace ends with the announcement of that step, its
  invocation and one \<open>ERROR\<close> record carrying the exception; the host is left in
  the state the failing command left it in; and the commands invoked in the whole run
  are the non-empty commands of the earlier steps, once each and in order, followed by
  the failing one. So no later step is invoked and no earlier command is run again or
  undone.
\<close>

theorem stops_at_first_failure:
  assumes pre: "run_steps run vm_id pre (tqdm (length (pre @ (desc, cmd) # post)) s) = (None, s1)"
    and cmd: "cmd \<noteq> []"
    and out: "run (world s1) cmd = (out, w')"
    and abnormal: "out \<noteq> Exited 0"
  shows "\<exists>e m. raised out cmd = Some e \<and>
           try_steps run vm_id (pre @ (desc, cmd) # post) s =
             (None, s1\<lparr>world := w',
                        trace := trace s1 @
                          [Logged INFO (desc @ '' for VM ID '' @ str vm_id) [], Invoked cmd,
                           Logged ERROR m [ArgExn e]]\<rparr>) \<and>
           invocations (trace (snd (try_steps run vm_id (pre @ (desc, cmd) # post) s))) =
             invocations (trace s) @ filter (\<lambda>c. c \<noteq> []) (map snd pre) @ [cmd]"
proof -
  let ?s0 = "tqdm (length (pre @ (desc, cmd) # post)) s"
  let ?s2 = "s1\<lparr>world := w', trace := trace s1 @
               [Logged INFO (desc @ '' for VM ID '' @ str vm_id) [], Invoked cmd]\<rparr>"
  from raised_abnormal[OF abnormal] obtain e where e: "raised out cmd = Some e" by blast
  then have not_exit: "\<And>c. e \<noteq> SystemExit c" using raised_not_exit[of out cmd] by auto
  have "check_call run cmd (logging_info (desc @ '' for VM ID '' @ str vm_id) [] s1) = (Some e, ?s2)"
    using out e by (simp add: check_call_def logging_info_def)
  with cmd have "run_steps run vm_id ((desc, cmd) # post) s1 = (Some e, ?s2)" by simp
  with pre have loop: "run_steps run vm_id (pre @ (desc, cmd) # post) ?s0 = (Some e, ?s2)"
    by (simp add: run_steps_append)
  from except_clauses_logs[OF not_exit] obtain m where
    m: "except_clauses e ?s2 = (None, logging_error m [ArgExn e] ?s2)" by blast
  have res: "try_steps run vm_id (pre @ (desc, cmd) # post) s =
      (None, s1\<lparr>world := w', trace := trace s1 @
                 [Logged INFO (desc @ '' for VM ID '' @ str vm_id) [], Invoked cmd,
                  Logged ERROR m [ArgExn e]]\<rparr>)"
    using loop m by (simp add: try_steps_def logging_error_def)
  from run_steps_shape[OF pre] have "trace s1 = trace s @ concat (map (step_events vm_id) pre)"
    by (auto simp: tqdm_def)
  then have "invocations (trace s1) = invocations (trace s) @ filter (\<lambda>c. c \<noteq> []) (map snd pre)"
    by (simp add: invocations_append invocations_step_events)
  with res e show ?thesis by (auto simp: invocations_append)
qed

text \<open>
  An instance: a table of four steps, the second of them a no-op, whose third step
  exits with status 1.
\<close>

theorem stops_at_first_failure_witness:
  "run_steps (fail_nth 1 (Exited 1)) 9001 [(''First'', [''true'']), (''Skipped'', [])]
     (tqdm (length ([(''First'', [''true'']), (''Skipped'', [])] @
        (''Second'', [''false'']) # [(''Third'', [''true''])])) init) =
     (None, \<lparr>world = 1,
             trace = [Logged INFO ''First for VM ID 9001'' [], Invoked [''true'']],
             pbar_n = 2, pbar_total = 4\<rparr>) \<and>
   [''false''] \<noteq> [] \<and>
   fail_nth 1 (Exited 1) 1 [''false''] = (Exited 1, 2) \<and>
   Exited 1 \<noteq> Exited 0 \<and>
   try_steps (fail_nth 1 (Exited 1)) 9001
     ([(''First'', [''true'']), (''Skipped'', [])] @
        (''Second'', [''false'']) # [(''Third'', [''true''])]) init =
     (None, \<lparr>world = 2,
             trace = [Logged INFO ''First for VM ID 9001'' [], Invoked [''true''],
                      Logged INFO ''Second for VM ID 9001'' [], Invoked [''false''],
                      Logged ERROR ''An error occurred while creating the template: %s''
                        [ArgExn (CalledProcessError 1 [''false''])]],
             pbar_n = 2, pbar_total = 4\<rparr>) \<and>
   invocations (trace (snd (try_steps (fail_nth 1 (Exited 1)) 9001
     ([(''First'', [''true'']), (''Skipped'', [])] @
        (''Second'', [''false'']) # [(''Third'', [''true''])]) init))) =
     [[''true''], [''false'']]"
proof -
  let ?s1 = "\<lparr>world = 1::nat,
             trace = [Logged INFO ''First for VM ID 9001'' [], Invoked [''true'']],
             pbar_n = 2, pbar_total = 4\<rparr>"
  have h1: "run_steps (fail_nth 1 (Exited 1)) 9001 [(''First'', [''true'']), (''Skipped'', [])]
     (tqdm (length ([(''First'', [''true'']), (''Skipped'', [])] @
        (''Second'', [''false'']) # [(''Third'', [''true''])])) init) = (None, ?s1)"
    by (simp add: check_call_def raised_def logging_info_def pbar_update_def tqdm_def
        fail_nth_def init_def str_examples)
  have h2: "[''false''] \<noteq> []" by simp
  have h3: "fail_nth 1 (Exited 1) (world ?s1) [''false''] = (Exited 1, 2)"
    by (simp add: fail_nth_def)
  have h4: "Exited 1 \<noteq> Exited 0" by simp
  have res: "try_steps (fail_nth 1 (Exited 1)) 9001
     ([(''First'', [''true'']), (''Skipped'', [])] @
        (''Second'', [''false'']) # [(''Third'', [''true''])]) init =
     (None, \<lparr>world = 2,
             trace = [Logged INFO ''First for VM ID 9001'' [], Invoked [''true''],
                      Logged INFO ''Second for VM ID 9001'' [], Invoked [''false''],
                      Logged ERROR ''An error occurred while creating the template: %s''
                        [ArgExn (CalledProcessError 1 [''false''])]],
             pbar_n = 2, pbar_total = 4\<rparr>)"
    by (simp add: try_steps_def check_call_def raised_def logging_info_def logging_error_def
        pbar_update_def tqdm_def fail_nth_def init_def str_examples)
  from stops_at_first_failure[OF h1 h2 h3 h4]
  have "invocations (trace (snd (try_steps (fail_nth 1 (Exited 1)) 9001
     ([(''First'', [''true'']), (''Skipped'', [])] @
        (''Second'', [''false'']) # [(''Third'', [''true''])]) init))) =
     invocations (trace init) @
       filter (\<lambda>c. c \<noteq> []) (map snd [(''First'', [''true'']), (''Skipped'', [])]) @ [[''false'']]"
    by blast
  then show ?thesis using h1 h3 res by (simp add: init_def)
qed

text \<open>
  Claim C2, as amended. If the first two commands exit with status 0 and the third
  (Setting ISO) exits with a status other than 0, then \<^verbatim>\<open>create_template\<close> returns
  normally, exactly the first three commands have been invoked, exactly one failure is
  logged, by the \<^verbatim>\<open>CalledProcessError\<close> clause, and the progress bar stands at 2
  of 7: \<^verbatim>\<open>pbar.update(1)\<close> comes after \<^verbatim>\<open>check_call\<close> in the loop body, so
  the failed step is not counted.
\<close>

theorem set_iso_failure:
  assumes "run (world s)
             [''qm'', ''create'', str vm_id, ''--name'', vm_name, ''--ostype'', ostype,
              ''--tablet'', ''0''] = (Exited 0, w1)"
    and "run w1
           [''qm'', ''set'', str vm_id, ''--net0'',
            ''virtio,bridge=vmbr0'' @ (if vm_vlan \<noteq> 0 then '',tag='' @ str vm_vlan else ''''),
            ''--memory'', str mem, ''--cores'', str cores, ''--cpu'', ''host''] = (Exited 0, w2)"
    and "run w2
           [''qm'', ''set'', str vm_id, ''--scsi0'',
            ''local-lvm:0,import-from='' @ iso_file @ '',discard=on,ssd=1''] = (Exited rc, w3)"
    and "rc \<noteq> 0"
  shows "create_template run vm_id vm_name vm_vlan mem cores cinit iso_file ostype s =
     (None,
      \<lparr>world = w3,
       trace = trace s @
         [Logged INFO (''Creating VM for VM ID '' @ str vm_id) [],
          Invoked [''qm'', ''create'', str vm_id, ''--name'', vm_name, ''--ostype'', ostype,
                   ''--tablet'', ''0''],
          Logged INFO (''Configuring Network for VM ID '' @ str vm_id) [],
          Invoked [''qm'', ''set'', str vm_id, ''--net0'',
                   ''virtio,bridge=vmbr0'' @ (if vm_vlan \<noteq> 0 then '',tag='' @ str vm_vlan else ''''),
                   ''--memory'', str mem, ''--cores'', str cores, ''--cpu'', ''host''],
          Logged INFO (''Setting ISO for VM ID '' @ str vm_id) [],
          Invoked [''qm'', ''set'', str vm_id, ''--scsi0'',
                   ''local-lvm:0,import-from='' @ iso_file @ '',discard=on,ssd=1''],
          Logged ERROR ''An error occurred while creating the template: %s''
            [ArgExn (CalledProcessError rc
               [''qm'', ''set'', str vm_id, ''--scsi0'',
                ''local-lvm:0,import-from='' @ iso_file @ '',discard=on,ssd=1''])]],
       pbar_n = 2, pbar_total = 7\<rparr>) \<and>
    invocations (trace (snd (create_template run vm_id vm_name vm_vlan mem cores cinit iso_file
       ostype s))) =
      invocations (trace s) @
        map snd (take 3 (steps vm_id vm_name vm_vlan mem cores cinit iso_file ostype)) \<and>
    errors_logged (trace (snd (create_template run vm_id vm_name vm_vlan mem cores cinit iso_file
       ostype s))) =
      errors_logged (trace s) @
        [Logged ERROR ''An error occurred while creating the template: %s''
           [ArgExn (CalledProcessError rc
              [''qm'', ''set'', str vm_id, ''--scsi0'',
               ''local-lvm:0,import-from='' @ iso_file @ '',discard=on,ssd=1''])]]"
proof -
  have res: "create_template run vm_id vm_name vm_vlan mem cores cinit iso_file ostype s =
     (None,
      \<lparr>world = w3,
       trace = trace s @
         [Logged INFO (''Creating VM for VM ID '' @ str vm_id) [],
          Invoked [''qm'', ''create'', str vm_id, ''--name'', vm_name, ''--ostype'', ostype,
                   ''--tablet'', ''0''],
          Logged INFO (''Configuring Network for VM ID '' @ str vm_id) [],
          Invoked [''qm'', ''set'', str vm_id, ''--net0'',
                   ''virtio,bridge=vmbr0'' @ (if vm_vlan \<noteq> 0 then '',tag='' @ str vm_vlan else ''''),
                   ''--memory'', str mem, ''--cores'', str cores, ''--cpu'', ''host''],
          Logged INFO (''Setting ISO for VM ID '' @ str vm_id) [],
          Invoked [''qm'', ''set'', str vm_id, ''--scsi0'',
                   ''local-lvm:0,import-from='' @ iso_file @ '',discard=on,ssd=1''],
          Logged ERROR ''An error occurred while creating the template: %s''
            [ArgExn (CalledProcessError rc
               [''qm'', ''set'', str vm_id, ''--scsi0'',
                ''local-lvm:0,import-from='' @ iso_file @ '',discard=on,ssd=1''])]],
       pbar_n = 2, pbar_total = 7\<rparr>)"
    using assms
    by (simp add: create_template_def try_steps_def steps_def check_call_def raised_def
        logging_info_def logging_error_def pbar_update_def tqdm_def)
  show ?thesis
    unfolding res by (simp add: invocations_append errors_logged_append steps_def)
qed

text \<open>An instance: VM 9002 with VLAN 42 and a snippet, where the third command exits with status 2.\<close>

theorem set_iso_failure_witness:
  "fail_nth 2 (Exited 2) (world init)
     [''qm'', ''create'', str 9002, ''--name'', ''tmpl-ok'', ''--ostype'', ''l26'',
      ''--tablet'', ''0''] = (Exited 0, 1) \<and>
   fail_nth 2 (Exited 2) 1
     [''qm'', ''set'', str 9002, ''--net0'',
      ''virtio,bridge=vmbr0'' @ (if (42::int) \<noteq> 0 then '',tag='' @ str 42 else ''''),
      ''--memory'', str 2046, ''--cores'', str 2, ''--cpu'', ''host''] = (Exited 0, 2) \<and>
   fail_nth 2 (Exited 2) 2
     [''qm'', ''set'', str 9002, ''--scsi0'',
      ''local-lvm:0,import-from='' @ ''/missing.iso'' @ '',discard=on,ssd=1''] = (Exited 2, 3) \<and>
   (2::int) \<noteq> 0 \<and>
   pbar_n (snd (create_template (fail_nth 2 (Exited 2)) 9002 ''tmpl-ok'' 42 2046 2 ''ci.yml''
     ''/missing.iso'' ''l26'' init)) = 2 \<and>
   pbar_total (snd (create_template (fail_nth 2 (Exited 2)) 9002 ''tmpl-ok'' 42 2046 2 ''ci.yml''
     ''/missing.iso'' ''l26'' init)) = 7 \<and>
   invocations (trace (snd (create_template (fail_nth 2 (Exited 2)) 9002 ''tmpl-ok'' 42 2046 2
     ''ci.yml'' ''/missing.iso'' ''l26'' init))) =
     [[''qm'', ''create'', ''9002'', ''--name'', ''tmpl-ok'', ''--ostype'', ''l26'', ''--tablet'',
       ''0''],
      [''qm'', ''set'', ''9002'', ''--net0'', ''virtio,bridge=vmbr0,tag=42'', ''--memory'',
       ''2046'', ''--cores'', ''2'', ''--cpu'', ''host''],
      [''qm'', ''set'', ''9002'', ''--scsi0'',
       ''local-lvm:0,import-from=/missing.iso,discard=on,ssd=1'']] \<and>
   errors_logged (trace (snd (create_template (fail_nth 2 (Exited 2)) 9002 ''tmpl-ok'' 42 2046 2
     ''ci.yml'' ''/missing.iso'' ''l26'' init))) =
     [Logged ERROR ''An error occurred while creating the template: %s''
        [ArgExn (CalledProcessError 2
           [''qm'', ''set'', ''9002'', ''--scsi0'',
            ''local-lvm:0,import-from=/missing.iso,discard=on,ssd=1''])]]"
proof -
  have h1: "fail_nth 2 (Exited 2) (world init)
     [''qm'', ''create'', str 9002, ''--name'', ''tmpl-ok'', ''--ostype'', ''l26'',
      ''--tablet'', ''0''] = (Exited 0, 1)"
    by (simp add: fail_nth_def init_def)
  have h2: "fail_nth 2 (Exited 2) 1
     [''qm'', ''set'', str 9002, ''--net0'',
      ''virtio,bridge=vmbr0'' @ (if (42::int) \<noteq> 0 then '',tag='' @ str 42 else ''''),
      ''--memory'', str 2046, ''--cores'', str 2, ''--cpu'', ''host''] = (Exited 0, 2)"
    by (simp add: fail_nth_def)
  have h3: "fail_nth 2 (Exited 2) 2
     [''qm'', ''set'', str 9002, ''--scsi0'',
      ''local-lvm:0,import-from='' @ ''/missing.iso'' @ '',discard=on,ssd=1''] = (Exited 2, 3)"
    by (simp add: fail_nth_def)
  have h4: "(2::int) \<noteq> 0" by simp
  from set_iso_failure[OF h1 h2 h3 h4, of "''ci.yml''"]
  show ?thesis using h1 h2 h3
    by (simp add: steps_def str_examples init_def)
qed

text \<open>
  The scenario of the specification (VM 9001, \<^verbatim>\<open>tmpl-test\<close>,
  \<^verbatim>\<open>/nonexistent.iso\<close>, the third command exits with status 1): the progress bar
  stands at 2, not at 3.
\<close>

theorem set_iso_failure_counterexample:
  "create_template (fail_nth 2 (Exited 1)) 9001 ''tmpl-test'' 0 2046 2 '''' ''/nonexistent.iso''
     ''l26'' init =
     (None,
      \<lparr>world = 3,
       trace =
         [Logged INFO ''Creating VM for VM ID 9001'' [],
          Invoked [''qm'', ''create'', ''9001'', ''--name'', ''tmpl-test'', ''--ostype'', ''l26'',
                   ''--tablet'', ''0''],
          Logged INFO ''Configuring Network for VM ID 9001'' [],
          Invoked [''qm'', ''set'', ''9001'', ''--net0'', ''virtio,bridge=vmbr0'', ''--memory'',
                   ''2046'', ''--cores'', ''2'', ''--cpu'', ''host''],
          Logged INFO ''Setting ISO for VM ID 9001'' [],
          Invoked [''qm'', ''set'', ''9001'', ''--scsi0'',
                   ''local-lvm:0,import-from=/nonexistent.iso,discard=on,ssd=1''],
          Logged ERROR ''An error occurred while creating the template: %s''
            [ArgExn (CalledProcessError 1
               [''qm'', ''set'', ''9001'', ''--scsi0'',
                ''local-lvm:0,import-from=/nonexistent.iso,discard=on,ssd=1''])]],
       pbar_n = 2, pbar_total = 7\<rparr>) \<and>
   pbar_n (snd (create_template (fail_nth 2 (Exited 1)) 9001 ''tmpl-test'' 0 2046 2 ''''
     ''/nonexistent.iso'' ''l26'' init)) \<noteq> 3"
  by (simp add: create_template_def try_steps_def steps_def check_call_def raised_def
      logging_info_def logging_error_def pbar_update_def tqdm_def fail_nth_def init_def
      str_examples)

text \<open>
  Claim C3. Whatever the arguments, the table has exactly 7 steps, and their
  descriptions are, in this order, the seven strings of the source: creating the VM,
  the network, the ISO, the boot order, cloud-init, the cloud-init customization, the
  template.
\<close>

theorem steps_seven_in_order:
  "length (steps vm_id vm_name vm_vlan mem cores cinit iso_file ostype) = 7 \<and>
   map fst (steps vm_id vm_name vm_vlan mem cores cinit iso_file ostype) =
     [''Creating VM'', ''Configuring Network'', ''Setting ISO'', ''Configuring Boot'',
      ''Configuring Cloud-Init'', ''Setting Cloud-Init Customization'', ''Creating Template'']"
  by (simp add: steps_def)

text \<open>
  Claim C4. When \<^verbatim>\<open>cinit\<close> is the empty string, the table still has 7 steps and
  the command of the sixth is empty. In every run the total of the progress bar is 7,
  the commands invoked are an initial part of the six commands of the other steps
  (nothing is invoked for the sixth), and the counter reaches 7 exactly when the trace
  is that of the complete run: the six announcements and invocations in order, with
  nothing between the fifth step and the seventh, and the final record of success.
\<close>

theorem no_snippet_step_is_noop:
  assumes run: "create_template run vm_id vm_name vm_vlan mem cores [] iso_file ostype s = (r, s')"
  shows "length (steps vm_id vm_name vm_vlan mem cores [] iso_file ostype) = 7 \<and>
    steps vm_id vm_name vm_vlan mem cores [] iso_file ostype ! 5 =
      (''Setting Cloud-Init Customization'', []) \<and>
    pbar_total s' = 7 \<and> pbar_n s' \<le> 7 \<and>
    (\<exists>k. invocations (trace s') = invocations (trace s) @
       take k (map snd (steps vm_id vm_name vm_vlan mem cores [] iso_file ostype ! 0 #
                        steps vm_id vm_name vm_vlan mem cores [] iso_file ostype ! 1 #
                        steps vm_id vm_name vm_vlan mem cores [] iso_file ostype ! 2 #
                        steps vm_id vm_name vm_vlan mem cores [] iso_file ostype ! 3 #
                        steps vm_id vm_name vm_vlan mem cores [] iso_file ostype ! 4 #
                        [steps vm_id vm_name vm_vlan mem cores [] iso_file ostype ! 6]))) \<and>
    ((pbar_n s' = 7) =
     (trace s' = trace s @
        [Logged INFO (''Creating VM for VM ID '' @ str vm_id) [],
         Invoked [''qm'', ''create'', str vm_id, ''--name'', vm_name, ''--ostype'', ostype,
                  ''--tablet'', ''0''],
         Logged INFO (''Configuring Network for VM ID '' @ str vm_id) [],
         Invoked [''qm'', ''set'', str vm_id, ''--net0'',
                  ''virtio,bridge=vmbr0'' @ (if vm_vlan \<noteq> 0 then '',tag='' @ str vm_vlan else ''''),
                  ''--memory'', str mem, ''--cores'', str cores, ''--cpu'', ''host''],
         Logged INFO (''Setting ISO for VM ID '' @ str vm_id) [],
         Invoked [''qm'', ''set'', str vm_id, ''--scsi0'',
                  ''local-lvm:0,import-from='' @ iso_file @ '',discard=on,ssd=1''],
         Logged INFO (''Configuring Boot for VM ID '' @ str vm_id) [],
         Invoked [''qm'', ''set'', str vm_id, ''--boot'', ''order=scsi0'', ''--scsihw'',
                  ''virtio-scsi-single'', ''--agent'', ''enabled=1,fstrim_cloned_disks=1''],
         Logged INFO (''Configuring Cloud-Init for VM ID '' @ str vm_id) [],
         Invoked [''qm'', ''set'', str vm_id, ''--ide2'', ''local-lvm:cloudinit'',
                  ''--ipconfig0'', ''ip=dhcp''],
         Logged INFO (''Creating Template for VM ID '' @ str vm_id) [],
         Invoked [''qm'', ''template'', str vm_id],
         Logged INFO ''Template creation for VM ID %s completed successfully''
           [ArgInt vm_id]]))"
proof -
  let ?stps = "steps vm_id vm_name vm_vlan mem cores [] iso_file ostype"
  let ?done = "[Logged INFO ''Template creation for VM ID %s completed successfully'' [ArgInt vm_id]]"
  have len: "length ?stps = 7" by (simp add: steps_def)
  have slot: "?stps ! 5 = (''Setting Cloud-Init Customization'', [])" by (simp add: steps_def)
  from run have tr0: "try_steps run vm_id ?stps s = (r, s')" by (simp add: create_template_def)
  note shape = try_steps_shape[OF tr0]
  from shape len have total: "pbar_total s' = 7" by simp
  show ?thesis
  proof (cases "fst (run_steps run vm_id ?stps (tqdm (length ?stps) s))")
    case None
    with shape len have n: "pbar_n s' = 7"
      and tr: "trace s' = trace s @ concat (map (step_events vm_id) ?stps) @ ?done"
      by simp_all
    have inv: "invocations (trace s') = invocations (trace s) @
       take 6 (map snd [?stps ! 0, ?stps ! 1, ?stps ! 2, ?stps ! 3, ?stps ! 4, ?stps ! 6])"
      unfolding tr by (simp add: invocations_append invocations_step_events) (simp add: steps_def)
    have full: "trace s' = trace s @ concat (map (step_events vm_id) ?stps) @ ?done"
      by (rule tr)
    show ?thesis
      apply (intro conjI)
           apply (rule len)
          apply (rule slot)
         apply (rule total)
        apply (simp add: n)
       apply (rule exI[of _ 6])
       apply (rule inv)
      apply (simp add: n full)
      apply (simp add: steps_def step_events_def)
      done
  next
    case (Some e)
    with shape len obtain m where n: "pbar_n s' < 7" and ne: "snd (?stps ! pbar_n s') \<noteq> []"
      and tr: "trace s' = trace s @ concat (map (step_events vm_id) (take (Suc (pbar_n s')) ?stps)) @
                 [Logged ERROR m [ArgExn e]]"
      by auto
    from less_7_cases[OF n] ne slot
    have ks: "pbar_n s' = 0 \<or> pbar_n s' = 1 \<or> pbar_n s' = 2 \<or> pbar_n s' = 3 \<or>
                 pbar_n s' = 4 \<or> pbar_n s' = 6"
      by auto
    have inv0: "invocations (trace s') = invocations (trace s) @
        filter (\<lambda>c. c \<noteq> []) (map snd (take (Suc (pbar_n s')) ?stps))"
      unfolding tr by (simp add: invocations_append invocations_step_events)
    have inv: "invocations (trace s') = invocations (trace s) @
       take (if pbar_n s' = 6 then 6 else Suc (pbar_n s'))
         (map snd [?stps ! 0, ?stps ! 1, ?stps ! 2, ?stps ! 3, ?stps ! 4, ?stps ! 6])"
      unfolding inv0 using ks by (auto simp: steps_def)
    have "last (trace s') = Logged ERROR m [ArgExn e]" unfolding tr by simp
    then have neq: "trace s' \<noteq> trace s @ ys"
      if "ys \<noteq> []" "last ys = Logged INFO ''Template creation for VM ID %s completed successfully'' [ArgInt vm_id]"
      for ys
      using that by auto
    show ?thesis
      apply (intro conjI)
           apply (rule len)
          apply (rule slot)
         apply (rule total)
      using n apply simp
       apply (rule exI)
       apply (rule inv)
      using n apply (simp add: neq)
      done
  qed
qed

text \<open>An instance: VM 9002 without a snippet on a host where every command succeeds.\<close>

theorem no_snippet_step_is_noop_witness:
  "create_template always_succeeds 9002 ''tmpl-ok'' 0 2046 2 [] ''/x.iso'' ''l26'' init =
     (None,
      \<lparr>world = 6,
       trace =
         [Logged INFO ''Creating VM for VM ID 9002'' [],
          Invoked [''qm'', ''create'', ''9002'', ''--name'', ''tmpl-ok'', ''--ostype'', ''l26'',
                   ''--tablet'', ''0''],
          Logged INFO ''Configuring Network for VM ID 9002'' [],
          Invoked [''qm'', ''set'', ''9002'', ''--net0'', ''virtio,bridge=vmbr0'', ''--memory'',
                   ''2046'', ''--cores'', ''2'', ''--cpu'', ''host''],
          Logged INFO ''Setting ISO for VM ID 9002'' [],
          Invoked [''qm'', ''set'', ''9002'', ''--scsi0'',
                   ''local-lvm:0,import-from=/x.iso,discard=on,ssd=1''],
          Logged INFO ''Configuring Boot for VM ID 9002'' [],
          Invoked [''qm'', ''set'', ''9002'', ''--boot'', ''order=scsi0'', ''--scsihw'',
                   ''virtio-scsi-single'', ''--agent'', ''enabled=1,fstrim_cloned_disks=1''],
          Logged INFO ''Configuring Cloud-Init for VM ID 9002'' [],
          Invoked [''qm'', ''set'', ''9002'', ''--ide2'', ''local-lvm:cloudinit'',
                   ''--ipconfig0'', ''ip=dhcp''],
          Logged INFO ''Creating Template for VM ID 9002'' [],
          Invoked [''qm'', ''template'', ''9002''],
          Logged INFO ''Template creation for VM ID %s completed successfully'' [ArgInt 9002]],
       pbar_n = 7, pbar_total = 7\<rparr>) \<and>
   length (steps 9002 ''tmpl-ok'' 0 2046 2 [] ''/x.iso'' ''l26'') = 7 \<and>
   steps 9002 ''tmpl-ok'' 0 2046 2 [] ''/x.iso'' ''l26'' ! 5 =
     (''Setting Cloud-Init Customization'', [])"
proof -
  have res: "create_template always_succeeds 9002 ''tmpl-ok'' 0 2046 2 [] ''/x.iso'' ''l26'' init =
     (None,
      \<lparr>world = 6,
       trace =
         [Logged INFO ''Creating VM for VM ID 9002'' [],
          Invoked [''qm'', ''create'', ''9002'', ''--name'', ''tmpl-ok'', ''--ostype'', ''l26'',
                   ''--tablet'', ''0''],
          Logged INFO ''Configuring Network for VM ID 9002'' [],
          Invoked [''qm'', ''set'', ''9002'', ''--net0'', ''virtio,bridge=vmbr0'', ''--memory'',
                   ''2046'', ''--cores'', ''2'', ''--cpu'', ''host''],
          Logged INFO ''Setting ISO for VM ID 9002'' [],
          Invoked [''qm'', ''set'', ''9002'', ''--scsi0'',
                   ''local-lvm:0,import-from=/x.iso,discard=on,ssd=1''],
          Logged INFO ''Configuring Boot for VM ID 9002'' [],
          Invoked [''qm'', ''set'', ''9002'', ''--boot'', ''order=scsi0'', ''--scsihw'',
                   ''virtio-scsi-single'', ''--agent'', ''enabled=1,fstrim_cloned_disks=1''],
          Logged INFO ''Configuring Cloud-Init for VM ID 9002'' [],
          Invoked [''qm'', ''set'', ''9002'', ''--ide2'', ''local-lvm:cloudinit'',
                   ''--ipconfig0'', ''ip=dhcp''],
          Logged INFO ''Creating Template for VM ID 9002'' [],
          Invoked [''qm'', ''template'', ''9002''],
          Logged INFO ''Template creation for VM ID %s completed successfully'' [ArgInt 9002]],
       pbar_n = 7, pbar_total = 7\<rparr>)"
    by (simp add: create_template_def try_steps_def steps_def check_call_def raised_def
        logging_info_def pbar_update_def tqdm_def always_succeeds_def init_def str_examples)
  from no_snippet_step_is_noop[OF res] show ?thesis
    using res by simp
qed

text \<open>
  Claim C5, as amended. Every exception that \<^verbatim>\<open>check_call\<close> raises is handled by
  exactly one of the three clauses, and the three messages differ: an exit status other
  than 0 gives \<^verbatim>\<open>An error occurred while creating the template\<close> (CommandFailed);
  an executable that is not found gives \<^verbatim>\<open>File not found error\<close>
  (ExecutableMissing); everything else, also an executable that is found and cannot be
  started, gives \<^verbatim>\<open>An unexpected error occurred\<close> (UnclassifiedFailure).
\<close>

theorem failure_classification:
  assumes "raised out cmd = Some e"
  shows "except_clauses e s =
     (None,
      logging_error
        (case out of
           Exited rc \<Rightarrow> ''An error occurred while creating the template: %s''
         | NotFound p \<Rightarrow> ''File not found error: %s''
         | NotPermitted p \<Rightarrow> ''An unexpected error occurred: %s''
         | Failed p \<Rightarrow> ''An unexpected error occurred: %s'')
        [ArgExn e] s) \<and>
    distinct [''An error occurred while creating the template: %s'', ''File not found error: %s'',
              ''An unexpected error occurred: %s'']"
  using assms by (cases out) (auto simp: raised_def split: if_splits)

text \<open>An instance: the executable \<^verbatim>\<open>qm\<close> is not found.\<close>

theorem failure_classification_witness:
  "raised (NotFound ''qm'') [''qm'', ''template'', ''9001''] = Some (FileNotFoundError ''qm'') \<and>
   except_clauses (FileNotFoundError ''qm'') init =
     (None, \<lparr>world = 0,
             trace = [Logged ERROR ''File not found error: %s'' [ArgExn (FileNotFoundError ''qm'')]],
             pbar_n = 0, pbar_total = 0\<rparr>)"
proof -
  have h: "raised (NotFound ''qm'') [''qm'', ''template'', ''9001''] = Some (FileNotFoundError ''qm'')"
    by (simp add: raised_def)
  from failure_classification[OF h, of init] show ?thesis
    using h by (simp add: logging_error_def init_def)
qed

text \<open>
  The claim as written fails: when \<^verbatim>\<open>qm\<close> exists and may not be executed, the first
  command cannot be launched at all, and the record is the one of the last clause, not
  the one of the \<^verbatim>\<open>FileNotFoundError\<close> clause.
\<close>

theorem launch_failure_counterexample:
  "create_template (fail_nth 0 (NotPermitted ''qm'')) 9001 ''tmpl-test'' 0 2046 2 '''' ''/a.iso''
     ''l26'' init =
     (None,
      \<lparr>world = 1,
       trace =
         [Logged INFO ''Creating VM for VM ID 9001'' [],
          Invoked [''qm'', ''create'', ''9001'', ''--name'', ''tmpl-test'', ''--ostype'', ''l26'',
                   ''--tablet'', ''0''],
          Logged ERROR ''An unexpected error occurred: %s'' [ArgExn (PermissionError ''qm'')]],
       pbar_n = 0, pbar_total = 7\<rparr>) \<and>
   last (trace (snd (create_template (fail_nth 0 (NotPermitted ''qm'')) 9001 ''tmpl-test'' 0 2046
     2 '''' ''/a.iso'' ''l26'' init))) \<noteq>
     Logged ERROR ''File not found error: %s'' [ArgExn (PermissionError ''qm'')]"
  by (simp add: create_template_def try_steps_def steps_def check_call_def raised_def
      logging_info_def logging_error_def pbar_update_def tqdm_def fail_nth_def init_def
      str_examples)

text \<open>
  Claim C6. For a name with a space in it, \<^verbatim>\<open>main\<close> logs the error and calls
  \<^verbatim>\<open>sys.exit()\<close> without an argument: whatever the host and the file system,
  nothing else happens and the exit status of the process is 0.
\<close>

theorem name_with_spaces_exits_zero:
  "main run getcwd path_exists
     \<lparr>args_vmid = 100, args_name = ''my vm'', args_vlan = 0, args_memory = 2046,
      args_cores = 2, args_cinit = '''', args_iso = ''debian.iso'', args_ostype = ''l26''\<rparr> s =
     (Some (SystemExit None),
      logging_error ''VM name contains spaces. Please use a name without spaces.'' [] s) \<and>
   exit_status (fst (main run getcwd path_exists
     \<lparr>args_vmid = 100, args_name = ''my vm'', args_vlan = 0, args_memory = 2046,
      args_cores = 2, args_cinit = '''', args_iso = ''debian.iso'', args_ostype = ''l26''\<rparr> s)) = 0"
  by (simp add: main_def sys_exit_def)

text \<open>
  The two other checks end the process with status 1, and before any command is
  invoked.
\<close>

lemma missing_iso_exits_one:
  assumes "CHR '' '' \<notin> set (args_name a)"
    and "os_path_isabs (args_iso a)"
    and "\<not> path_exists (args_iso a)"
    and "\<not> path_exists (os_path_join iso_dir (os_path_basename (args_iso a)))"
  shows "exit_status (fst (main run getcwd path_exists a s)) = 1 \<and>
         invocations (trace (snd (main run getcwd path_exists a s))) = invocations (trace s)"
  using assms
  by (simp add: main_def resolve_iso_def logging_info_def logging_error_def invocations_append)

lemma missing_snippet_exits_one:
  assumes "CHR '' '' \<notin> set (args_name a)"
    and "os_path_isabs (args_iso a)"
    and "path_exists (args_iso a)"
    and "args_cinit a \<noteq> []"
    and "\<not> path_exists (os_path_join snippets_dir (args_cinit a))"
  shows "exit_status (fst (main run getcwd path_exists a s)) = 1 \<and>
         invocations (trace (snd (main run getcwd path_exists a s))) = invocations (trace s)"
  using assms
  by (simp add: main_def resolve_iso_def check_cinit_def sys_exit_def logging_info_def
      logging_error_def invocations_append)

text \<open>
  Claim C7. Whatever the arguments, the host and the outcomes of the commands,
  \<^verbatim>\<open>create_template\<close> returns normally: no exception leaves it, \<open>SystemExit\<close>
  included.
\<close>

theorem create_template_returns_normally:
  "fst (create_template run vm_id vm_name vm_vlan mem cores cinit iso_file ostype s) = None"
proof -
  let ?stps = "steps vm_id vm_name vm_vlan mem cores cinit iso_file ostype"
  obtain r s1 where loop: "run_steps run vm_id ?stps (tqdm (length ?stps) s) = (r, s1)"
    by (cases "run_steps run vm_id ?stps (tqdm (length ?stps) s)")
  show ?thesis
  proof (cases r)
    case None
    with loop show ?thesis by (simp add: create_template_def try_steps_def)
  next
    case (Some e)
    with loop have "\<And>c. e \<noteq> SystemExit c" by (auto dest: run_steps_not_exit)
    then have "fst (except_clauses e s1) = None" by (cases e) auto
    with loop Some show ?thesis by (simp add: create_template_def try_steps_def)
  qed
qed

text \<open>
  Claim C8. When the VLAN is 0 the value of \<^verbatim>\<open>--net0\<close> in the command of the
  network step is \<^verbatim>\<open>virtio,bridge=vmbr0\<close> and nothing more; otherwise it is that
  followed by \<^verbatim>\<open>,tag=\<close> and the decimal digits of the VLAN. The rest of the
  command is the same in both cases.
\<close>

theorem network_step_vlan_tag:
  "(vm_vlan = 0 \<longrightarrow>
      snd (steps vm_id vm_name vm_vlan mem cores cinit iso_file ostype ! 1) =
        [''qm'', ''set'', str vm_id, ''--net0'', ''virtio,bridge=vmbr0'',
         ''--memory'', str mem, ''--cores'', str cores, ''--cpu'', ''host'']) \<and>
   (vm_vlan \<noteq> 0 \<longrightarrow>
      snd (steps vm_id vm_name vm_vlan mem cores cinit iso_file ostype ! 1) =
        [''qm'', ''set'', str vm_id, ''--net0'', ''virtio,bridge=vmbr0,tag='' @ str vm_vlan,
         ''--memory'', str mem, ''--cores'', str cores, ''--cpu'', ''host''])"
  by (simp add: steps_def)

text \<open>Instances: VLAN 0, and VLAN 42, which gives \<^verbatim>\<open>tag=42\<close>.\<close>

theorem network_step_vlan_tag_witness:
  "snd (steps 9002 ''tmpl-ok'' 0 2046 2 '''' ''/x.iso'' ''l26'' ! 1) =
     [''qm'', ''set'', ''9002'', ''--net0'', ''virtio,bridge=vmbr0'',
      ''--memory'', ''2046'', ''--cores'', ''2'', ''--cpu'', ''host''] \<and>
   snd (steps 9002 ''tmpl-ok'' 42 2046 2 '''' ''/x.iso'' ''l26'' ! 1) =
     [''qm'', ''set'', ''9002'', ''--net0'', ''virtio,bridge=vmbr0,tag=42'',
      ''--memory'', ''2046'', ''--cores'', ''2'', ''--cpu'', ''host'']"
  using network_step_vlan_tag [of 0 9002 "''tmpl-ok''" 2046 2 "''''" "''/x.iso''" "''l26''"]
    network_step_vlan_tag [of 42 9002 "''tmpl-ok''" 2046 2 "''''" "''/x.iso''" "''l26''"]
  by (simp add: str_examples)

text \<open>
  Claim C9. In every run of \<^verbatim>\<open>create_template\<close> the trace grows by the events of
  the steps reached, in the order of the table, and then by one final record. The
  events of a step are \<open>step_events\<close>: for a command that is not empty the line made
  of the description, \<^verbatim>\<open>for VM ID\<close> and the VM ID, directly followed by the
  invocation; for an empty command no line and no invocation. When the loop completes
  all 7 steps, the final record is the success line with the VM ID as its argument;
  when a step raises, the final record is an \<open>ERROR\<close> record carrying the exception.
\<close>

theorem steps_announced_before_invocation:
  "(fst (run_steps run vm_id (steps vm_id vm_name vm_vlan mem cores cinit iso_file ostype)
           (tqdm 7 s)) = None \<longrightarrow>
      trace (snd (create_template run vm_id vm_name vm_vlan mem cores cinit iso_file ostype s)) =
        trace s @
        concat (map (step_events vm_id)
          (steps vm_id vm_name vm_vlan mem cores cinit iso_file ostype)) @
        [Logged INFO ''Template creation for VM ID %s completed successfully'' [ArgInt vm_id]]) \<and>
   (\<forall>e. fst (run_steps run vm_id (steps vm_id vm_name vm_vlan mem cores cinit iso_file ostype)
           (tqdm 7 s)) = Some e \<longrightarrow>
      (\<exists>k m. k < 7 \<and>
         trace (snd (create_template run vm_id vm_name vm_vlan mem cores cinit iso_file ostype s)) =
           trace s @
           concat (map (step_events vm_id)
             (take (Suc k) (steps vm_id vm_name vm_vlan mem cores cinit iso_file ostype))) @
           [Logged ERROR m [ArgExn e]]))"
proof -
  let ?stps = "steps vm_id vm_name vm_vlan mem cores cinit iso_file ostype"
  have len: "length ?stps = 7" by (simp add: steps_def)
  obtain r s' where tr0: "try_steps run vm_id ?stps s = (r, s')"
    by (cases "try_steps run vm_id ?stps s")
  then have res: "snd (create_template run vm_id vm_name vm_vlan mem cores cinit iso_file ostype s) = s'"
    by (simp add: create_template_def)
  from try_steps_shape[OF tr0] show ?thesis
    unfolding res len by (auto split: option.splits)
qed

text \<open>An instance: VM 9002 with VLAN 42 and a snippet on a host where every command succeeds.\<close>

theorem steps_announced_before_invocation_witness:
  "fst (run_steps always_succeeds 9002
          (steps 9002 ''tmpl-ok'' 42 2046 2 ''ci.yml'' ''/x.iso'' ''l26'') (tqdm 7 init)) = None \<and>
   trace (snd (create_template always_succeeds 9002 ''tmpl-ok'' 42 2046 2 ''ci.yml'' ''/x.iso''
                 ''l26'' init)) =
     [Logged INFO ''Creating VM for VM ID 9002'' [],
      Invoked [''qm'', ''create'', ''9002'', ''--name'', ''tmpl-ok'', ''--ostype'', ''l26'',
               ''--tablet'', ''0''],
      Logged INFO ''Configuring Network for VM ID 9002'' [],
      Invoked [''qm'', ''set'', ''9002'', ''--net0'', ''virtio,bridge=vmbr0,tag=42'',
               ''--memory'', ''2046'', ''--cores'', ''2'', ''--cpu'', ''host''],
      Logged INFO ''Setting ISO for VM ID 9002'' [],
      Invoked [''qm'', ''set'', ''9002'', ''--scsi0'',
               ''local-lvm:0,import-from=/x.iso,discard=on,ssd=1''],
      Logged INFO ''Configuring Boot for VM ID 9002'' [],
      Invoked [''qm'', ''set'', ''9002'', ''--boot'', ''order=scsi0'', ''--scsihw'',
               ''virtio-scsi-single'', ''--agent'', ''enabled=1,fstrim_cloned_disks=1''],
      Logged INFO ''Configuring Cloud-Init for VM ID 9002'' [],
      Invoked [''qm'', ''set'', ''9002'', ''--ide2'', ''local-lvm:cloudinit'', ''--ipconfig0'',
               ''ip=dhcp''],
      Logged INFO ''Setting Cloud-Init Customization for VM ID 9002'' [],
      Invoked [''qm'', ''set'', ''9002'', ''--cicustom'', ''user=local:snippets/ci.yml''],
      Logged INFO ''Creating Template for VM ID 9002'' [],
      Invoked [''qm'', ''template'', ''9002''],
      Logged INFO ''Template creation for VM ID %s completed successfully'' [ArgInt 9002]]"
proof -
  have h: "fst (run_steps always_succeeds 9002
          (steps 9002 ''tmpl-ok'' 42 2046 2 ''ci.yml'' ''/x.iso'' ''l26'') (tqdm 7 init)) = None"
    by (simp add: steps_def check_call_def raised_def logging_info_def pbar_update_def tqdm_def
        always_succeeds_def init_def)
  from steps_announced_before_invocation[of always_succeeds 9002 "''tmpl-ok''" 42 2046 2
      "''ci.yml''" "''/x.iso''" "''l26''" init] h
  have "trace (snd (create_template always_succeeds 9002 ''tmpl-ok'' 42 2046 2 ''ci.yml''
                 ''/x.iso'' ''l26'' init)) =
        trace init @
        concat (map (step_events 9002)
          (steps 9002 ''tmpl-ok'' 42 2046 2 ''ci.yml'' ''/x.iso'' ''l26'')) @
        [Logged INFO ''Template creation for VM ID %s completed successfully'' [ArgInt 9002]]"
    by blast
  then show ?thesis using h
    by (simp add: steps_def step_events_def init_def str_examples)
qed

end
